theory Spec2Isabelle
  imports Complex_Main
begin

section \<open>The Go library functions that simpleenv calls\<close>

text \<open>
  The package \<open>simpleenv\<close> is one file of Go. It calls a handful of functions of the Go
  standard library (\<open>strings\<close>, \<open>slices\<close>, \<open>os\<close>, \<open>strconv\<close>, \<open>net/url\<close>, \<open>regexp\<close>).
  They are not part of the repository; this section models them after the standard
  library's sources and documentation, as far as \<open>simpleenv\<close> observes them. Go strings
  are byte sequences: \<open>string\<close> (a \<open>char list\<close>) with one \<open>char\<close> per byte.
\<close>

subsection \<open>strings, slices, os\<close>

definition byte :: "char \<Rightarrow> nat" where
  "byte c = of_char c"

definition strings_HasPrefix :: "string \<Rightarrow> string \<Rightarrow> bool" where
  "strings_HasPrefix s p = (take (length p) s = p)"

definition strings_TrimPrefix :: "string \<Rightarrow> string \<Rightarrow> string" where
  "strings_TrimPrefix s p = (if strings_HasPrefix s p then drop (length p) s else s)"

text \<open>
  \<open>strings.Split(s, sep)\<close> for a separator of one byte (simpleenv splits on \<open>";"\<close> and
  \<open>","\<close> only). The result has one more element than \<open>s\<close> has separators: the empty
  string gives the one-element slice holding the empty string.
\<close>

fun strings_Split :: "string \<Rightarrow> char \<Rightarrow> string list" where
  "strings_Split [] sep = [[]]"
| "strings_Split (c # cs) sep =
     (if c = sep then [] # strings_Split cs sep
      else (case strings_Split cs sep of
              [] \<Rightarrow> [[c]]
            | x # xs \<Rightarrow> (c # x) # xs))"

definition slices_Contains :: "string list \<Rightarrow> string \<Rightarrow> bool" where
  "slices_Contains xs x = (x \<in> set xs)"

text \<open>
  The process environment is a finite map from names to values. \<open>os.Getenv\<close> returns the
  empty string for a name that is not set, and for the empty name.
\<close>

type_synonym environ = "string \<rightharpoonup> string"

definition os_Getenv :: "environ \<Rightarrow> string \<Rightarrow> string" where
  "os_Getenv env key =
     (if key = [] then []
      else (case env key of None \<Rightarrow> [] | Some v \<Rightarrow> v))"

subsection \<open>strconv.Atoi\<close>

definition is_digit :: "char \<Rightarrow> bool" where
  "is_digit c = (48 \<le> byte c \<and> byte c \<le> 57)"

definition digit_val :: "char \<Rightarrow> int" where
  "digit_val c = int (byte c) - 48"

fun digits_value :: "int \<Rightarrow> string \<Rightarrow> int" where
  "digits_value n [] = n"
| "digits_value n (c # cs) = digits_value (n * 10 + digit_val c) cs"

text \<open>
  \<open>strconv.Atoi\<close>: an optional sign and then one or more decimal digits, nothing else,
  with a value that fits Go's \<open>int\<close> (64 bits here). Any other string is an error.
\<close>

definition strconv_Atoi :: "string \<Rightarrow> int option" where
  "strconv_Atoi s =
     (let neg = (s \<noteq> [] \<and> hd s = CHR ''-'');
          ds = (if s \<noteq> [] \<and> (hd s = CHR ''-'' \<or> hd s = CHR ''+'') then tl s else s)
      in if ds = [] \<or> \<not> list_all is_digit ds then None
         else let n = digits_value 0 ds
              in if neg then (if n > 2 ^ 63 then None else Some (- n))
                 else (if n \<ge> 2 ^ 63 then None else Some n))"

subsection \<open>strconv.ParseFloat\<close>

text \<open>
  A \<open>float64\<close> is a finite double (sign and magnitude, the magnitude an exact rational
  that is representable), an infinity, or NaN.
\<close>

datatype float64 = Finite bool rat | Infinity bool | NaN

definition f64_zero :: float64 where
  "f64_zero = Finite False 0"

definition finite_value :: "bool \<Rightarrow> rat \<Rightarrow> rat" where
  "finite_value neg m = (if neg then - m else m)"

text \<open>Go's \<open><\<close> on \<open>float64\<close>: false whenever an operand is NaN; the two zeros are equal.\<close>

fun f64_less :: "float64 \<Rightarrow> float64 \<Rightarrow> bool" where
  "f64_less NaN _ = False"
| "f64_less _ NaN = False"
| "f64_less (Infinity n1) (Infinity n2) = (n1 \<and> \<not> n2)"
| "f64_less (Infinity n1) (Finite _ _) = n1"
| "f64_less (Finite _ _) (Infinity n2) = (\<not> n2)"
| "f64_less (Finite s1 m1) (Finite s2 m2) = (finite_value s1 m1 < finite_value s2 m2)"

definition ascii_lower :: "char \<Rightarrow> char" where
  "ascii_lower c = (if 65 \<le> byte c \<and> byte c \<le> 90 then char_of (byte c + 32) else c)"

fun commonPrefixLenIgnoreCase :: "string \<Rightarrow> string \<Rightarrow> nat" where
  "commonPrefixLenIgnoreCase (c # s) (p # ps) =
     (if ascii_lower c = p then Suc (commonPrefixLenIgnoreCase s ps) else 0)"
| "commonPrefixLenIgnoreCase _ _ = 0"

definition special_inf :: "bool \<Rightarrow> nat \<Rightarrow> string \<Rightarrow> (float64 \<times> nat) option" where
  "special_inf neg nsign s =
     (let n = commonPrefixLenIgnoreCase s ''infinity'';
          n' = (if 3 < n \<and> n < 8 then 3 else n)
      in if n' = 3 \<or> n' = 8 then Some (Infinity neg, nsign + n') else None)"

text \<open>
  \<open>special\<close> recognises \<open>inf\<close>, \<open>infinity\<close> (with an optional sign) and \<open>nan\<close> (without),
  ignoring case, and returns the value and the number of bytes it used.
\<close>

definition special :: "string \<Rightarrow> (float64 \<times> nat) option" where
  "special s =
     (case s of
        [] \<Rightarrow> None
      | c # cs \<Rightarrow>
          if c = CHR ''+'' \<or> c = CHR ''-'' then special_inf (c = CHR ''-'') 1 cs
          else if c = CHR ''i'' \<or> c = CHR ''I'' then special_inf False 0 s
          else if c = CHR ''n'' \<or> c = CHR ''N'' then
            (if commonPrefixLenIgnoreCase s ''nan'' = 3 then Some (NaN, 3) else None)
          else None)"

definition is_hex_letter :: "char \<Rightarrow> bool" where
  "is_hex_letter c = (97 \<le> byte (ascii_lower c) \<and> byte (ascii_lower c) \<le> 102)"

definition hex_letter_val :: "char \<Rightarrow> int" where
  "hex_letter_val c = int (byte (ascii_lower c)) - 97 + 10"

text \<open>
  The state of \<open>readFloat\<close>'s mantissa loop. Go keeps the first 19 (16 in base 16)
  digits in a \<open>uint64\<close> and a flag saying that more followed, and later rounds the
  whole literal correctly; the model keeps every digit in \<open>mantissa\<close>, so that
  \<open>mantissa * base ^ (dp - nd)\<close> is the exact value read.
\<close>

record mant_state =
  sawdot :: bool
  sawdigits :: bool
  nd :: int
  dp :: int
  mantissa :: int
  underscores :: bool

definition mant_init :: mant_state where
  "mant_init = \<lparr>sawdot = False, sawdigits = False, nd = 0, dp = 0, mantissa = 0,
                 underscores = False\<rparr>"

fun read_mantissa :: "bool \<Rightarrow> mant_state \<Rightarrow> string \<Rightarrow> mant_state \<times> string" where
  "read_mantissa hex st [] = (st, [])"
| "read_mantissa hex st (c # cs) =
     (if c = CHR ''_'' then read_mantissa hex (st\<lparr>underscores := True\<rparr>) cs
      else if c = CHR ''.'' then
        (if sawdot st then (st, c # cs)
         else read_mantissa hex (st\<lparr>sawdot := True, dp := nd st\<rparr>) cs)
      else if is_digit c then
        (if c = CHR ''0'' \<and> nd st = 0
         then read_mantissa hex (st\<lparr>sawdigits := True, dp := dp st - 1\<rparr>) cs
         else read_mantissa hex
                (st\<lparr>sawdigits := True, nd := nd st + 1,
                    mantissa := mantissa st * (if hex then 16 else 10) + digit_val c\<rparr>) cs)
      else if hex \<and> is_hex_letter c then
        read_mantissa hex
          (st\<lparr>sawdigits := True, nd := nd st + 1,
              mantissa := mantissa st * 16 + hex_letter_val c\<rparr>) cs
      else (st, c # cs))"

text \<open>The exponent's digits; the exponent stops growing once it has reached 10000.\<close>

fun read_exp_digits :: "int \<Rightarrow> bool \<Rightarrow> string \<Rightarrow> int \<times> bool \<times> string" where
  "read_exp_digits e us [] = (e, us, [])"
| "read_exp_digits e us (c # cs) =
     (if c = CHR ''_'' then read_exp_digits e True cs
      else if is_digit c then
        read_exp_digits (if e < 10000 then e * 10 + digit_val c else e) us cs
      else (e, us, c # cs))"

text \<open>
  \<open>underscoreOK\<close>: an underscore may stand only between digits, or between a base prefix
  and a digit. \<open>saw\<close> is the last byte class seen, written as in the Go source:
  \<open>^\<close> beginning, \<open>0\<close> digit, \<open>_\<close> underscore, \<open>!\<close> other.
\<close>

fun underscore_scan :: "bool \<Rightarrow> char \<Rightarrow> string \<Rightarrow> bool" where
  "underscore_scan hex saw [] = (saw \<noteq> CHR ''_'')"
| "underscore_scan hex saw (c # cs) =
     (if is_digit c \<or> hex \<and> is_hex_letter c then underscore_scan hex (CHR ''0'') cs
      else if c = CHR ''_'' then
        (if saw \<noteq> CHR ''0'' then False else underscore_scan hex (CHR ''_'') cs)
      else if saw = CHR ''_'' then False
      else underscore_scan hex (CHR ''!'') cs)"

definition underscoreOK :: "string \<Rightarrow> bool" where
  "underscoreOK s =
     (let s1 = (if s \<noteq> [] \<and> (hd s = CHR ''-'' \<or> hd s = CHR ''+'') then tl s else s);
          pre = (length s1 \<ge> 2 \<and> s1 ! 0 = CHR ''0'' \<and>
                 ascii_lower (s1 ! 1) \<in> {CHR ''b'', CHR ''o'', CHR ''x''})
      in if pre then underscore_scan (ascii_lower (s1 ! 1) = CHR ''x'') (CHR ''0'') (drop 2 s1)
         else underscore_scan False (CHR ''^'') s1)"

text \<open>
  \<open>readFloat\<close> returns the sign, whether the literal is hexadecimal, the mantissa, the
  exponent (of 10, or of 2 for a hexadecimal literal) and the unread rest of the string,
  or nothing when the prefix read is not a well-formed literal.
\<close>

definition read_finish ::
  "bool \<Rightarrow> bool \<Rightarrow> int \<Rightarrow> int \<Rightarrow> bool \<Rightarrow> string \<Rightarrow> string
     \<Rightarrow> (bool \<times> bool \<times> int \<times> int \<times> string) option" where
  "read_finish neg hex m e us s rest =
     (if us \<and> \<not> underscoreOK (take (length s - length rest) s) then None
      else Some (neg, hex, m, e, rest))"

definition readFloat :: "string \<Rightarrow> (bool \<times> bool \<times> int \<times> int \<times> string) option" where
  "readFloat s =
     (if s = [] then None
      else
        let neg = (hd s = CHR ''-'');
            s1 = (if hd s = CHR ''+'' \<or> hd s = CHR ''-'' then tl s else s);
            hex = (length s1 > 2 \<and> s1 ! 0 = CHR ''0'' \<and> ascii_lower (s1 ! 1) = CHR ''x'');
            s2 = (if hex then drop 2 s1 else s1);
            (st, s3) = read_mantissa hex mant_init s2
        in if \<not> sawdigits st then None
           else
             let dp1 = (if sawdot st then dp st else nd st);
                 dp2 = (if hex then dp1 * 4 else dp1);
                 ndm = (if hex then nd st * 4 else nd st)
             in if s3 \<noteq> [] \<and> ascii_lower (hd s3) = (if hex then CHR ''p'' else CHR ''e'')
                then
                  (let s4 = tl s3
                   in if s4 = [] then None
                      else
                        let esign = (if hd s4 = CHR ''-'' then - 1 else 1);
                            s5 = (if hd s4 = CHR ''+'' \<or> hd s4 = CHR ''-'' then tl s4 else s4)
                        in if s5 = [] \<or> \<not> is_digit (hd s5) then None
                           else
                             (case read_exp_digits 0 (underscores st) s5 of
                                (e, us, s6) \<Rightarrow>
                                  read_finish neg hex (mantissa st) (dp2 + e * esign - ndm)
                                    us s s6))
                else if hex then None
                else read_finish neg hex (mantissa st) (dp2 - ndm) (underscores st) s s3)"

text \<open>
  Rounding the positive rational \<open>a / b\<close> (both integers positive) to the nearest
  double, ties to even. \<open>floor_log2\<close> is the binary exponent of the value; the exponent
  used is not below that of the subnormal range; \<open>n\<close> is the value in units of the last
  place, and the result \<open>n * 2 ^ s\<close> overflows when it reaches \<open>2 ^ 1024\<close>.
\<close>

definition pow_int :: "rat \<Rightarrow> int \<Rightarrow> rat" where
  "pow_int b k = (if 0 \<le> k then b ^ nat k else 1 / b ^ nat (- k))"

function bit_length :: "int \<Rightarrow> int" where
  "bit_length n = (if n \<le> 0 then 0 else 1 + bit_length (n div 2))"
  by pat_completeness auto
termination
  by (relation "measure nat") auto

declare bit_length.simps [simp del]

definition floor_log2 :: "int \<Rightarrow> int \<Rightarrow> int" where
  "floor_log2 a b =
     (let k = bit_length a - bit_length b
      in if (if 0 \<le> k then b * 2 ^ nat k \<le> a else b \<le> a * 2 ^ nat (- k)) then k
         else k - 1)"

definition round_half_even :: "int \<Rightarrow> int \<Rightarrow> int" where
  "round_half_even p q =
     (let n = p div q; r = p mod q
      in if 2 * r < q then n
         else if q < 2 * r then n + 1
         else if even n then n else n + 1)"

definition round_float64 :: "int \<Rightarrow> int \<Rightarrow> rat option" where
  "round_float64 a b =
     (let e = max (floor_log2 a b) (- 1022);
          s = e - 52;
          n = (if 0 \<le> s then round_half_even a (b * 2 ^ nat s)
               else round_half_even (a * 2 ^ nat (- s)) b)
      in if 1023 < e \<or> e = 1023 \<and> n = 2 ^ 53 then None
         else Some (of_int n * pow_int 2 s))"

text \<open>
  \<open>strconv.ParseFloat(s, 64)\<close>: the whole string must be a special value or a
  well-formed decimal or hexadecimal literal; the value \<open>m * base ^ e\<close> is correctly
  rounded, and a literal that rounds beyond the largest double is a range error. Every
  error is \<open>None\<close>: simpleenv only asks whether \<open>err\<close> is nil.
\<close>

definition strconv_ParseFloat :: "string \<Rightarrow> float64 option" where
  "strconv_ParseFloat s =
     (case special s of
        Some (v, n) \<Rightarrow> if n = length s then Some v else None
      | None \<Rightarrow>
          (case readFloat s of
             None \<Rightarrow> None
           | Some (neg, hex, m, e, rest) \<Rightarrow>
               if rest \<noteq> [] then None
               else if m = 0 then Some (Finite neg 0)
               else
                 (let base = (if hex then 2 else 10)
                  in case (if 0 \<le> e then round_float64 (m * base ^ nat e) 1
                           else round_float64 m (base ^ nat (- e))) of
                       None \<Rightarrow> None
                     | Some r \<Rightarrow> Some (Finite neg r))))"

subsection \<open>net/url.Parse and strings.EqualFold\<close>

text \<open>
  \<open>url.Parse\<close> after the \<open>net/url\<close> package of Go 1.22 (simpleenv's \<open>range\<close> over an
  integer needs at least that version). Of the parsed URL simpleenv reads \<open>Scheme\<close> and
  \<open>Host\<close> and asks whether parsing failed; the user information is checked, since it
  can make parsing fail, but not kept.
\<close>

record URL =
  Scheme :: string
  Opaque :: string
  Host :: string
  Path :: string
  RawQuery :: string
  Fragment :: string

definition url_empty :: URL where
  "url_empty = \<lparr>Scheme = [], Opaque = [], Host = [], Path = [], RawQuery = [], Fragment = []\<rparr>"

datatype encoding = encodePath | encodeHost | encodeZone | encodeUserPassword | encodeFragment

definition is_letter :: "char \<Rightarrow> bool" where
  "is_letter c = (97 \<le> byte c \<and> byte c \<le> 122 \<or> 65 \<le> byte c \<and> byte c \<le> 90)"

definition ishex :: "char \<Rightarrow> bool" where
  "ishex c = (is_digit c \<or> is_hex_letter c)"

definition unhex :: "char \<Rightarrow> nat" where
  "unhex c = (if is_digit c then byte c - 48 else byte (ascii_lower c) - 97 + 10)"

text \<open>\<open>shouldEscape(c, encodeHost)\<close>: the bytes that may not stand in a host as they are.\<close>

definition shouldEscape_host :: "char \<Rightarrow> bool" where
  "shouldEscape_host c =
     (\<not> (is_letter c \<or> is_digit c \<or> c \<in> set ''!$&'' \<or> byte c = 39 \<or> c \<in> set ''()*+,;=:[]<>''
         \<or> byte c = 34 \<or> c \<in> set ''-_.~''))"

text \<open>
  \<open>unescape\<close> decodes the \<open>%XX\<close> escapes of one component. A \<open>%\<close> that two hexadecimal
  digits do not follow is an error; so are, in a host, an escape of an ASCII byte other
  than \<open>%25\<close> and a byte that \<open>shouldEscape\<close> rejects.
\<close>

fun unescape :: "encoding \<Rightarrow> string \<Rightarrow> string option" where
  "unescape mode [] = Some []"
| "unescape mode (c # cs) =
     (if c = CHR ''%'' then
        (case cs of
           h1 # h2 # rest \<Rightarrow>
             if \<not> ishex h1 \<or> \<not> ishex h2 then None
             else if mode = encodeHost \<and> unhex h1 < 8 \<and> [h1, h2] \<noteq> ''25'' then None
             else if mode = encodeZone \<and> [h1, h2] \<noteq> ''25'' \<and> unhex h1 * 16 + unhex h2 \<noteq> 32
                     \<and> shouldEscape_host (char_of (unhex h1 * 16 + unhex h2)) then None
             else map_option ((#) (char_of (unhex h1 * 16 + unhex h2))) (unescape mode rest)
         | _ \<Rightarrow> None)
      else if (mode = encodeHost \<or> mode = encodeZone) \<and> byte c < 128 \<and> shouldEscape_host c
        then None
      else map_option ((#) c) (unescape mode cs))"

text \<open>\<open>strings.Cut\<close> at the first occurrence of a byte.\<close>

definition strings_Cut :: "string \<Rightarrow> char \<Rightarrow> string \<times> string" where
  "strings_Cut s sep = (takeWhile (\<lambda>c. c \<noteq> sep) s, drop 1 (dropWhile (\<lambda>c. c \<noteq> sep) s))"

text \<open>\<open>strings.LastIndex\<close> of a byte and \<open>strings.Index\<close> of a string; \<open>None\<close> is Go's \<open>-1\<close>.\<close>

definition strings_LastIndex :: "string \<Rightarrow> char \<Rightarrow> nat option" where
  "strings_LastIndex s c =
     (if c \<in> set s then Some (length s - 1 - length (takeWhile (\<lambda>x. x \<noteq> c) (rev s))) else None)"

fun strings_Index :: "string \<Rightarrow> string \<Rightarrow> nat option" where
  "strings_Index [] sub = (if sub = [] then Some 0 else None)"
| "strings_Index (c # cs) sub =
     (if strings_HasPrefix (c # cs) sub then Some 0
      else map_option Suc (strings_Index cs sub))"

definition stringContainsCTLByte :: "string \<Rightarrow> bool" where
  "stringContainsCTLByte s = list_ex (\<lambda>c. byte c < 32 \<or> byte c = 127) s"

text \<open>
  \<open>getScheme\<close>: the scheme and the rest after its colon; no scheme when the first byte
  is not a letter or a byte outside \<open>[A-Za-z0-9+-.]\<close> comes before the first colon; an
  error (\<open>None\<close>) when the string starts with a colon.
\<close>

fun getScheme_from :: "string \<Rightarrow> nat \<Rightarrow> string \<Rightarrow> (string \<times> string) option" where
  "getScheme_from rawURL i [] = Some ([], rawURL)"
| "getScheme_from rawURL i (c # cs) =
     (if is_letter c then getScheme_from rawURL (Suc i) cs
      else if is_digit c \<or> c = CHR ''+'' \<or> c = CHR ''-'' \<or> c = CHR ''.'' then
        (if i = 0 then Some ([], rawURL) else getScheme_from rawURL (Suc i) cs)
      else if c = CHR '':'' then
        (if i = 0 then None else Some (take i rawURL, drop (Suc i) rawURL))
      else Some ([], rawURL))"

definition getScheme :: "string \<Rightarrow> (string \<times> string) option" where
  "getScheme rawURL = getScheme_from rawURL 0 rawURL"

definition validOptionalPort :: "string \<Rightarrow> bool" where
  "validOptionalPort port =
     (case port of
        [] \<Rightarrow> True
      | c # ds \<Rightarrow> c = CHR '':'' \<and> list_all is_digit ds)"

definition validUserinfo :: "string \<Rightarrow> bool" where
  "validUserinfo s =
     list_all (\<lambda>c. is_letter c \<or> is_digit c \<or> c \<in> set ''-._:~!$&'' \<or> byte c = 39
                    \<or> c \<in> set ''()*+,;=%@'') s"

definition parseHost :: "string \<Rightarrow> string option" where
  "parseHost host =
     (if strings_HasPrefix host ''['' then
        (case strings_LastIndex host (CHR '']'') of
           None \<Rightarrow> None
         | Some i \<Rightarrow>
             if \<not> validOptionalPort (drop (Suc i) host) then None
             else
               (case strings_Index (take i host) ''%25'' of
                  Some zone \<Rightarrow>
                    (case unescape encodeHost (take zone host) of
                       None \<Rightarrow> None
                     | Some host1 \<Rightarrow>
                         (case unescape encodeZone (drop zone (take i host)) of
                            None \<Rightarrow> None
                          | Some host2 \<Rightarrow>
                              (case unescape encodeHost (drop i host) of
                                 None \<Rightarrow> None
                               | Some host3 \<Rightarrow> Some (host1 @ host2 @ host3))))
                | None \<Rightarrow> unescape encodeHost host))
      else
        (case strings_LastIndex host (CHR '':'') of
           Some i \<Rightarrow>
             if \<not> validOptionalPort (drop i host) then None else unescape encodeHost host
         | None \<Rightarrow> unescape encodeHost host))"

text \<open>\<open>parseAuthority\<close>, returning the host only.\<close>

definition parseAuthority :: "string \<Rightarrow> string option" where
  "parseAuthority authority =
     (case strings_LastIndex authority (CHR ''@'') of
        None \<Rightarrow> parseHost authority
      | Some i \<Rightarrow>
          (case parseHost (drop (Suc i) authority) of
             None \<Rightarrow> None
           | Some host \<Rightarrow>
               let userinfo = take i authority
               in if \<not> validUserinfo userinfo then None
                  else if CHR '':'' \<notin> set userinfo then
                    (case unescape encodeUserPassword userinfo of
                       None \<Rightarrow> None
                     | Some _ \<Rightarrow> Some host)
                  else
                    (case strings_Cut userinfo (CHR '':'') of
                       (username, password) \<Rightarrow>
                         (case unescape encodeUserPassword username of
                            None \<Rightarrow> None
                          | Some _ \<Rightarrow>
                              (case unescape encodeUserPassword password of
                                 None \<Rightarrow> None
                               | Some _ \<Rightarrow> Some host)))))"

definition ToLower_ascii :: "string \<Rightarrow> string" where
  "ToLower_ascii s = map ascii_lower s"

definition setPath :: "URL \<Rightarrow> string \<Rightarrow> URL option" where
  "setPath url p =
     (case unescape encodePath p of
        None \<Rightarrow> None
      | Some path \<Rightarrow> Some (url\<lparr>Path := path\<rparr>))"

text \<open>\<open>parse(rawURL, viaRequest = false)\<close>: everything before the fragment.\<close>

definition url_parse :: "string \<Rightarrow> URL option" where
  "url_parse rawURL =
     (if stringContainsCTLByte rawURL then None
      else if rawURL = ''*'' then Some (url_empty\<lparr>Path := ''*''\<rparr>)
      else
        (case getScheme rawURL of
           None \<Rightarrow> None
         | Some (scheme0, rest0) \<Rightarrow>
             let scheme = ToLower_ascii scheme0;
                 lone = (rest0 \<noteq> [] \<and> last rest0 = CHR ''?''
                         \<and> count_list rest0 (CHR ''?'') = 1);
                 rest = (if lone then butlast rest0 else fst (strings_Cut rest0 (CHR ''?'')));
                 query = (if lone then [] else snd (strings_Cut rest0 (CHR ''?'')));
                 url = url_empty\<lparr>Scheme := scheme, RawQuery := query\<rparr>
             in if \<not> strings_HasPrefix rest ''/'' \<and> scheme \<noteq> [] then
                  Some (url\<lparr>Opaque := rest\<rparr>)
                else if \<not> strings_HasPrefix rest ''/''
                        \<and> CHR '':'' \<in> set (fst (strings_Cut rest (CHR ''/''))) then None
                else if (scheme \<noteq> [] \<or> \<not> strings_HasPrefix rest ''///'')
                        \<and> strings_HasPrefix rest ''//'' then
                  (let authority = takeWhile (\<lambda>c. c \<noteq> CHR ''/'') (drop 2 rest);
                       rest' = dropWhile (\<lambda>c. c \<noteq> CHR ''/'') (drop 2 rest)
                   in case parseAuthority authority of
                        None \<Rightarrow> None
                      | Some host \<Rightarrow> setPath (url\<lparr>Host := host\<rparr>) rest')
                else setPath url rest))"

definition url_Parse :: "string \<Rightarrow> URL option" where
  "url_Parse rawURL =
     (case strings_Cut rawURL (CHR ''#'') of
        (u, frag) \<Rightarrow>
          (case url_parse u of
             None \<Rightarrow> None
           | Some url \<Rightarrow>
               if frag = [] then Some url
               else
                 (case unescape encodeFragment frag of
                    None \<Rightarrow> None
                  | Some f \<Rightarrow> Some (url\<lparr>Fragment := f\<rparr>))))"

text \<open>
  \<open>strings.EqualFold\<close> on ASCII strings: equality up to the case of the letters. (On
  other strings Go folds Unicode letters as well; simpleenv applies it to a scheme that
  \<open>getScheme\<close> has accepted, which is ASCII.)
\<close>

definition strings_EqualFold :: "string \<Rightarrow> string \<Rightarrow> bool" where
  "strings_EqualFold s t = (map ascii_lower s = map ascii_lower t)"

subsection \<open>regexp\<close>

text \<open>
  The regular-expression engine is a parameter of the model: \<open>regexp.Compile\<close> maps a
  pattern to a compiled expression, here its \<open>MatchString\<close> method, or fails.
\<close>

type_synonym regexp_Compile = "string \<Rightarrow> (string \<Rightarrow> bool) option"

section \<open>simpleenv\<close>

subsection \<open>Struct fields, values and errors\<close>

text \<open>
  What \<open>reflect\<close> tells simpleenv about a field: its name, its type, the value of its
  \<open>env\<close> tag (\<open>Tag.Get("env")\<close>, the empty string when the field has no such tag) and
  whether it is exported. A type is one of the three predeclared types simpleenv
  converts to, or any other type, of which only the kind matters (a defined type such
  as \<open>type Port int\<close> is \<open>TOther KInt\<close>).
\<close>

datatype go_kind = KString | KInt | KFloat64 | KOther

datatype go_type = TString | TInt | TFloat64 | TOther go_kind

fun Kind :: "go_type \<Rightarrow> go_kind" where
  "Kind TString = KString"
| "Kind TInt = KInt"
| "Kind TFloat64 = KFloat64"
| "Kind (TOther k) = k"

record StructField =
  Name :: string
  Type :: go_type
  Tag :: string
  Exported :: bool

datatype go_value = VString string | VInt int | VFloat64 float64 | VOther

fun ValueOf_Type :: "go_value \<Rightarrow> go_type" where
  "ValueOf_Type (VString _) = TString"
| "ValueOf_Type (VInt _) = TInt"
| "ValueOf_Type (VFloat64 _) = TFloat64"
| "ValueOf_Type VOther = TOther KOther"

fun zero_of_kind :: "go_kind \<Rightarrow> go_value" where
  "zero_of_kind KString = VString []"
| "zero_of_kind KInt = VInt 0"
| "zero_of_kind KFloat64 = VFloat64 f64_zero"
| "zero_of_kind KOther = VOther"

definition zero_value :: "go_type \<Rightarrow> go_value" where
  "zero_value t = zero_of_kind (Kind t)"

text \<open>
  A struct is the list of its fields, each with its current value; \<open>e.Field(i)\<close> is the
  \<open>reflect.Value\<close> of a field: always valid, settable when the field is exported (the
  struct is reached through a pointer, hence addressable).
\<close>

type_synonym struct = "(StructField \<times> go_value) list"

record field_Value =
  IsValid :: bool
  CanSet :: bool
  Type_of :: go_type
  Contents :: go_value

definition Field :: "StructField \<Rightarrow> go_value \<Rightarrow> field_Value" where
  "Field f cur = \<lparr>IsValid = True, CanSet = Exported f, Type_of = Type f, Contents = cur\<rparr>"

text \<open>
  One constructor for each place where simpleenv builds an error, with the values its
  message is formatted from.
\<close>

datatype error =
    NoEnvVarName_validate
  | RequiredValueMissing string string
  | NotInAllowedSet string string string
  | InvalidMinArgument string
  | MinValueNotNumeric string string
  | BelowMinimum string string string
  | InvalidMaxArgument string
  | MaxValueNotNumeric string string
  | AboveMaximum string string string
  | PatternMismatch string string
  | InvalidFormat string string
  | NoEnvVarName_parse
  | IntCoercionError string string go_type
  | FloatCoercionError string string go_type
  | UnsupportedType string string go_type
  | FieldNotValid
  | FieldNotSettable
  | TypesDontMatch
  | RegexCompileError string
  | RegexNoMatch

subsection \<open>matchRegex and isValidURL\<close>

definition matchRegex :: "regexp_Compile \<Rightarrow> string \<Rightarrow> string \<Rightarrow> error + bool" where
  "matchRegex compile pattern str =
     (case compile pattern of
        None \<Rightarrow> Inl (RegexCompileError pattern)
      | Some re \<Rightarrow> if \<not> re str then Inl RegexNoMatch else Inr True)"

fun scheme_allowed :: "string \<Rightarrow> string list \<Rightarrow> bool" where
  "scheme_allowed sch [] = False"
| "scheme_allowed sch (scheme # rest) =
     (if strings_EqualFold sch scheme then True else scheme_allowed sch rest)"

definition isValidURL :: "string \<Rightarrow> bool" where
  "isValidURL s =
     (case url_Parse s of
        None \<Rightarrow> False
      | Some u \<Rightarrow>
          if Scheme u = [] \<or> Host u = [] then False
          else scheme_allowed (Scheme u) [''http'', ''https''])"

subsection \<open>validateConstraints\<close>

text \<open>
  The \<open>switch\<close> in the body of \<open>validateConstraints\<close>'s loop, for one element of
  \<open>tagOptions\<close>: the loop goes on to the next element, or the function returns nil, or
  it returns an error.
\<close>

datatype outcome = Next | Return_nil | Return_err error

definition check_constraint ::
  "regexp_Compile \<Rightarrow> string \<Rightarrow> string \<Rightarrow> string \<Rightarrow> string \<Rightarrow> outcome" where
  "check_constraint compile envKey name envValue constraint =
     (if strings_HasPrefix constraint ''oneof='' then
        (let strOpts = strings_TrimPrefix constraint ''oneof='';
             opts = strings_Split strOpts (CHR '','')
         in if \<not> slices_Contains opts envValue
            then Return_err (NotInAllowedSet name envValue strOpts) else Next)
      else if strings_HasPrefix constraint ''min='' then
        (case strconv_ParseFloat (strings_TrimPrefix constraint ''min='') of
           None \<Rightarrow> Return_err (InvalidMinArgument name)
         | Some minval \<Rightarrow>
             (case strconv_ParseFloat envValue of
                None \<Rightarrow> Return_err (MinValueNotNumeric envKey name)
              | Some fieldValue \<Rightarrow>
                  if f64_less fieldValue minval
                  then Return_err (BelowMinimum envKey name constraint) else Next))
      else if strings_HasPrefix constraint ''max='' then
        (case strconv_ParseFloat (strings_TrimPrefix constraint ''max='') of
           None \<Rightarrow> Return_err (InvalidMaxArgument name)
         | Some maxval \<Rightarrow>
             (case strconv_ParseFloat envValue of
                None \<Rightarrow> Return_err (MaxValueNotNumeric envKey name)
              | Some fieldValue \<Rightarrow>
                  if f64_less maxval fieldValue
                  then Return_err (AboveMaximum envKey name constraint) else Next))
      else if strings_HasPrefix constraint ''regex='' then
        (case matchRegex compile (strings_TrimPrefix constraint ''regex='') envValue of
           Inl err \<Rightarrow> Return_err (PatternMismatch envKey name)
         | Inr _ \<Rightarrow> Next)
      else if strings_HasPrefix constraint ''format='' then
        (if strings_TrimPrefix constraint ''format='' \<noteq> ''URL'' then Return_nil
         else if \<not> isValidURL envValue then Return_err (InvalidFormat envKey name)
         else Next)
      else Next)"

text \<open>
  The loop \<open>for _, constraint := range tagOptions\<close>; its last argument is what is left
  of the range. The presence test stands at the head of every iteration.
\<close>

fun validate_loop ::
  "regexp_Compile \<Rightarrow> string list \<Rightarrow> string \<Rightarrow> string \<Rightarrow> string \<Rightarrow> string list
     \<Rightarrow> error option" where
  "validate_loop compile tagOptions envKey name envValue [] = None"
| "validate_loop compile tagOptions envKey name envValue (constraint # rest) =
     (if envValue = [] \<and> \<not> slices_Contains tagOptions ''optional''
      then Some (RequiredValueMissing envKey name)
      else
        (case check_constraint compile envKey name envValue constraint of
           Return_err err \<Rightarrow> Some err
         | Return_nil \<Rightarrow> None
         | Next \<Rightarrow> validate_loop compile tagOptions envKey name envValue rest))"

definition validateConstraints ::
  "regexp_Compile \<Rightarrow> environ \<Rightarrow> StructField \<Rightarrow> error option" where
  "validateConstraints compile env fieldType =
     (let tag = Tag fieldType;
          tagOptions = strings_Split tag (CHR '';'')
      in if length tagOptions < 1 then Some NoEnvVarName_validate
         else
           let envKey = hd tagOptions;
               envValue = os_Getenv env envKey
           in validate_loop compile tagOptions envKey (Name fieldType) envValue tagOptions)"

subsection \<open>parseValueFromEnv, assignFieldValue and Load\<close>

definition parseValueFromEnv :: "environ \<Rightarrow> StructField \<Rightarrow> error + go_value" where
  "parseValueFromEnv env fieldType =
     (let tag = Tag fieldType;
          tagOptions = strings_Split tag (CHR '';'')
      in if length tagOptions < 1 then Inl NoEnvVarName_parse
         else
           let envKey = hd tagOptions;
               envValue = os_Getenv env envKey
           in case Kind (Type fieldType) of
                KString \<Rightarrow> Inr (VString envValue)
              | KInt \<Rightarrow>
                  (case strconv_Atoi envValue of
                     None \<Rightarrow> Inl (IntCoercionError envKey (Name fieldType) (Type fieldType))
                   | Some intValue \<Rightarrow> Inr (VInt intValue))
              | KFloat64 \<Rightarrow>
                  (case strconv_ParseFloat envValue of
                     None \<Rightarrow> Inl (FloatCoercionError envKey (Name fieldType) (Type fieldType))
                   | Some floatValue \<Rightarrow> Inr (VFloat64 floatValue))
              | KOther \<Rightarrow> Inl (UnsupportedType envKey (Name fieldType) (Type fieldType)))"

definition assignFieldValue :: "field_Value \<Rightarrow> go_value \<Rightarrow> error + field_Value" where
  "assignFieldValue field val =
     (if \<not> IsValid field then Inl FieldNotValid
      else if \<not> CanSet field then Inl FieldNotSettable
      else if Type_of field \<noteq> ValueOf_Type val then Inl TypesDontMatch
      else Inr (field\<lparr>Contents := val\<rparr>))"

text \<open>
  The body of \<open>Load\<close>'s loop for one field: the value is read and converted first, the
  constraints are validated next, the value is assigned last. The result is the
  field's new value, or the error \<open>Load\<close> returns.
\<close>

definition load_field ::
  "regexp_Compile \<Rightarrow> environ \<Rightarrow> StructField \<Rightarrow> go_value \<Rightarrow> error + go_value" where
  "load_field compile env fieldType cur =
     (case parseValueFromEnv env fieldType of
        Inl err \<Rightarrow> Inl err
      | Inr envValue \<Rightarrow>
          (case validateConstraints compile env fieldType of
             Some err \<Rightarrow> Inl err
           | None \<Rightarrow>
               (case assignFieldValue (Field fieldType cur) envValue of
                  Inl err \<Rightarrow> Inl err
                | Inr field \<Rightarrow> Inr (Contents field))))"

text \<open>
  \<open>Load\<close> walks the fields in order and writes into the struct its argument points to;
  the model returns the error (\<open>None\<close> is nil) together with the struct as the call
  leaves it.
\<close>

fun Load :: "regexp_Compile \<Rightarrow> environ \<Rightarrow> struct \<Rightarrow> error option \<times> struct" where
  "Load compile env [] = (None, [])"
| "Load compile env ((fieldType, cur) # rest) =
     (case load_field compile env fieldType cur of
        Inl err \<Rightarrow> (Some err, (fieldType, cur) # rest)
      | Inr v \<Rightarrow>
          (case Load compile env rest of
             (r, rest') \<Rightarrow> (r, (fieldType, v) # rest')))"

text \<open>A struct of the given fields as Go allocates it: every field at its zero value.\<close>

definition zero_struct :: "StructField list \<Rightarrow> struct" where
  "zero_struct fs = map (\<lambda>f. (f, zero_value (Type f))) fs"

subsection \<open>Notions the properties are stated with\<close>

text \<open>
  The segments of a field's annotation, its key, the value looked up under the key and
  whether the code takes the field as optional: the expressions \<open>tagOptions\<close>, \<open>envKey\<close>,
  \<open>envValue\<close> and \<open>slices.Contains(tagOptions, "optional")\<close> of the source. The first
  segment is the key and the clauses are the segments after it, \<open>tl (tagOptions_of f)\<close>;
  the code looks for \<open>optional\<close> among all the segments, the key included.
\<close>

definition tagOptions_of :: "StructField \<Rightarrow> string list" where
  "tagOptions_of f = strings_Split (Tag f) (CHR '';'')"

definition envKey_of :: "StructField \<Rightarrow> string" where
  "envKey_of f = hd (tagOptions_of f)"

definition envValue_of :: "environ \<Rightarrow> StructField \<Rightarrow> string" where
  "envValue_of env f = os_Getenv env (envKey_of f)"

definition is_optional :: "StructField \<Rightarrow> bool" where
  "is_optional f = slices_Contains (tagOptions_of f) ''optional''"

text \<open>A regular-expression engine that compiles nothing, and an environment with no variable set.\<close>

definition no_regexp :: regexp_Compile where
  "no_regexp pattern = None"

definition env_unset :: environ where
  "env_unset = Map.empty"


definition EncryptionKey_field :: StructField where
  "EncryptionKey_field =
     \<lparr>Name = ''EncryptionKey'', Type = TString, Tag = ''ENCRYPTION_KEY'', Exported = True\<rparr>"

definition Version_field :: StructField where
  "Version_field =
     \<lparr>Name = ''Version'', Type = TFloat64, Tag = ''VERSION;optional'', Exported = True\<rparr>"

definition Concurrency_field :: StructField where
  "Concurrency_field =
     \<lparr>Name = ''Concurrency'', Type = TInt, Tag = ''CONCURRENCY;min=1'', Exported = True\<rparr>"

definition Concurrency_optional_field :: StructField where
  "Concurrency_optional_field =
     \<lparr>Name = ''Concurrency'', Type = TInt, Tag = ''CONCURRENCY;optional;min=1'',
      Exported = True\<rparr>"

definition env_concurrency_abc :: environ where
  "env_concurrency_abc = env_unset(''CONCURRENCY'' \<mapsto> ''abc'')"

definition env_concurrency_0 :: environ where
  "env_concurrency_0 = env_unset(''CONCURRENCY'' \<mapsto> ''0'')"


text \<open>
  Fields that bring a clause together with \<open>optional\<close>; a field with no \<open>env\<close> tag
  and one whose key is empty; two fields with an unrecognised format before and after
  another clause; a field whose key is the given string.
\<close>

definition Version_text_field :: StructField where
  "Version_text_field =
     \<lparr>Name = ''Version'', Type = TString, Tag = ''VERSION;optional'', Exported = True\<rparr>"


definition ApiURL_optional_field :: StructField where
  "ApiURL_optional_field =
     \<lparr>Name = ''ApiURL'', Type = TString, Tag = ''API_URL;optional;format=URL'',
      Exported = True\<rparr>"


definition Environment_optional_field :: StructField where
  "Environment_optional_field =
     \<lparr>Name = ''Environment'', Type = TString,
      Tag = ''ENVIRONMENT;optional;oneof=development,test,staging,production'',
      Exported = True\<rparr>"

definition Limit_field :: StructField where
  "Limit_field = \<lparr>Name = ''Limit'', Type = TFloat64, Tag = ''LIMIT;min=5'', Exported = True\<rparr>"

definition env_limit :: "string \<Rightarrow> environ" where
  "env_limit v = env_unset(''LIMIT'' \<mapsto> v)"

definition untagged_field :: StructField where
  "untagged_field = \<lparr>Name = ''Secret'', Type = TString, Tag = [], Exported = True\<rparr>"

definition empty_key_field :: StructField where
  "empty_key_field =
     \<lparr>Name = ''Secret'', Type = TString, Tag = '';optional'', Exported = True\<rparr>"

definition format_then_oneof_field :: StructField where
  "format_then_oneof_field =
     \<lparr>Name = ''Mode'', Type = TString, Tag = ''MODE;format=email;oneof=a,b'', Exported = True\<rparr>"

definition oneof_then_format_field :: StructField where
  "oneof_then_format_field =
     \<lparr>Name = ''Mode'', Type = TString, Tag = ''MODE;oneof=a,b;format=email'', Exported = True\<rparr>"

definition env_mode_zzz :: environ where
  "env_mode_zzz = env_unset(''MODE'' \<mapsto> ''zzz'')"

definition key_clause_field :: "string \<Rightarrow> StructField" where
  "key_clause_field key =
     \<lparr>Name = ''Field'', Type = TString, Tag = key @ '';optional'', Exported = True\<rparr>"

text \<open>
  A field whose key is the word \<open>optional\<close> and which has no clause, and a field whose
  annotation is the given string alone.
\<close>

definition optional_key_field :: StructField where
  "optional_key_field =
     \<lparr>Name = ''Flag'', Type = TString, Tag = ''optional'', Exported = True\<rparr>"

definition key_only_field :: "string \<Rightarrow> StructField" where
  "key_only_field key = \<lparr>Name = ''Field'', Type = TString, Tag = key, Exported = True\<rparr>"

section \<open>Properties\<close>

subsection \<open>Basic facts\<close>

lemma strings_Split_not_Nil: "strings_Split s sep \<noteq> []"
  by (induction s) (auto split: list.splits)

lemma tagOptions_of_not_Nil: "tagOptions_of f \<noteq> []"
  by (simp add: tagOptions_of_def strings_Split_not_Nil)

lemma tagOptions_of_key_clauses: "tagOptions_of f = envKey_of f # tl (tagOptions_of f)"
  using tagOptions_of_not_Nil [of f] by (simp add: envKey_of_def)

lemma is_optional_key_or_clause:
  "is_optional f =
     (envKey_of f = ''optional'' \<or> slices_Contains (tl (tagOptions_of f)) ''optional'')"
proof -
  have "slices_Contains (tagOptions_of f) ''optional'' =
      slices_Contains (envKey_of f # tl (tagOptions_of f)) ''optional''"
    using tagOptions_of_key_clauses [of f] by simp
  then show ?thesis
    by (auto simp: is_optional_def slices_Contains_def)
qed

lemma Atoi_empty: "strconv_Atoi [] = None"
  by (simp add: strconv_Atoi_def)

lemma ParseFloat_empty: "strconv_ParseFloat [] = None"
  by (simp add: strconv_ParseFloat_def special_def readFloat_def)

lemma validateConstraints_loop:
  "validateConstraints compile env f =
     validate_loop compile (tagOptions_of f) (envKey_of f) (Name f) (envValue_of env f)
       (tagOptions_of f)"
  by (simp add: validateConstraints_def tagOptions_of_def envKey_of_def envValue_of_def
      strings_Split_not_Nil Let_def)

lemma parseValueFromEnv_kind:
  "parseValueFromEnv env f =
     (case Kind (Type f) of
        KString \<Rightarrow> Inr (VString (envValue_of env f))
      | KInt \<Rightarrow>
          (case strconv_Atoi (envValue_of env f) of
             None \<Rightarrow> Inl (IntCoercionError (envKey_of f) (Name f) (Type f))
           | Some n \<Rightarrow> Inr (VInt n))
      | KFloat64 \<Rightarrow>
          (case strconv_ParseFloat (envValue_of env f) of
             None \<Rightarrow> Inl (FloatCoercionError (envKey_of f) (Name f) (Type f))
           | Some x \<Rightarrow> Inr (VFloat64 x))
      | KOther \<Rightarrow> Inl (UnsupportedType (envKey_of f) (Name f) (Type f)))"
  unfolding parseValueFromEnv_def tagOptions_of_def envKey_of_def envValue_of_def Let_def
  by (simp add: strings_Split_not_Nil)

lemma validate_required:
  assumes "\<not> is_optional f" and "envValue_of env f = []"
  shows "validateConstraints compile env f = Some (RequiredValueMissing (envKey_of f) (Name f))"
proof -
  obtain c cs where "tagOptions_of f = c # cs"
    using tagOptions_of_not_Nil [of f] by (cases "tagOptions_of f") auto
  with assms show ?thesis
    by (simp add: validateConstraints_loop is_optional_def)
qed

subsection \<open>Optional fields whose variable is not set\<close>

text \<open>
  C1. The claim: a field marked \<open>optional\<close> whose variable is absent binds successfully
  and keeps its zero value, whatever its declared type. The code converts the looked-up
  string before it looks at the clauses, and neither \<open>strconv.ParseFloat\<close> nor
  \<open>strconv.Atoi\<close> accepts the empty string: with no variable set, \<open>Load\<close> fails on the
  example program's own \<open>Version float64 `env:"VERSION;optional"`\<close> and on the
  documentation's \<open>Concurrency int `env:"CONCURRENCY;optional;min=1"`\<close>, both marked
  \<open>optional\<close>; the same annotation on a \<open>string\<close> field binds.
\<close>

theorem C1_optional_absent_numeric_field_fails:
  "Load compile env_unset (zero_struct [Version_field]) =
     (Some (FloatCoercionError ''VERSION'' ''Version'' TFloat64), zero_struct [Version_field])
   \<and> Load compile env_unset (zero_struct [Concurrency_optional_field]) =
     (Some (IntCoercionError ''CONCURRENCY'' ''Concurrency'' TInt),
      zero_struct [Concurrency_optional_field])
   \<and> is_optional Version_field \<and> is_optional Concurrency_optional_field
   \<and> Load compile env_unset (zero_struct [Version_text_field]) =
     (None, zero_struct [Version_text_field])"
  by code_simp

subsection \<open>The order of coercion and validation\<close>

text \<open>
  C2, as claimed: coercion runs only after validation has succeeded, so that a value
  failing both a constraint and the coercion is reported as the constraint failure.
  For \<open>Concurrency int `env:"CONCURRENCY;min=1"`\<close> and \<open>CONCURRENCY=abc\<close> both fail, and
  \<open>Load\<close> returns the coercion error.
\<close>

theorem C2_counterexample:
  "parseValueFromEnv env_concurrency_abc Concurrency_field =
     Inl (IntCoercionError ''CONCURRENCY'' ''Concurrency'' TInt)
   \<and> validateConstraints no_regexp env_concurrency_abc Concurrency_field =
     Some (MinValueNotNumeric ''CONCURRENCY'' ''Concurrency'')
   \<and> Load no_regexp env_concurrency_abc (zero_struct [Concurrency_field]) =
     (Some (IntCoercionError ''CONCURRENCY'' ''Concurrency'' TInt),
      zero_struct [Concurrency_field])"
  by code_simp

text \<open>
  C2, amended: \<open>Load\<close> converts the raw string first and validates the constraints
  after. A coercion failure is the error of the binding whatever the constraints would
  say; a constraint failure is the error of the binding when the coercion has succeeded.
\<close>

theorem C2_coercion_before_validation:
  "(parseValueFromEnv env f = Inl e \<longrightarrow>
      Load compile env ((f, cur) # rest) = (Some e, (f, cur) # rest))
   \<and> (parseValueFromEnv env f = Inr v \<and> validateConstraints compile env f = Some e' \<longrightarrow>
      Load compile env ((f, cur) # rest) = (Some e', (f, cur) # rest))"
  by (simp add: load_field_def)

theorem C2_coercion_before_validation_witness:
  "Load no_regexp env_concurrency_abc [(Concurrency_field, VInt 0)] =
     (Some (IntCoercionError ''CONCURRENCY'' ''Concurrency'' TInt), [(Concurrency_field, VInt 0)])
   \<and> validateConstraints no_regexp env_concurrency_abc Concurrency_field =
     Some (MinValueNotNumeric ''CONCURRENCY'' ''Concurrency'')
   \<and> Load no_regexp env_concurrency_0 [(Concurrency_field, VInt 0)] =
     (Some (BelowMinimum ''CONCURRENCY'' ''Concurrency'' ''min=1''), [(Concurrency_field, VInt 0)])"
proof -
  have p1: "parseValueFromEnv env_concurrency_abc Concurrency_field =
      Inl (IntCoercionError ''CONCURRENCY'' ''Concurrency'' TInt)"
    by code_simp
  have v1: "validateConstraints no_regexp env_concurrency_abc Concurrency_field =
      Some (MinValueNotNumeric ''CONCURRENCY'' ''Concurrency'')"
    by code_simp
  have p2: "parseValueFromEnv env_concurrency_0 Concurrency_field = Inr (VInt 0)"
    by code_simp
  have v2: "validateConstraints no_regexp env_concurrency_0 Concurrency_field =
      Some (BelowMinimum ''CONCURRENCY'' ''Concurrency'' ''min=1'')"
    by code_simp
  show ?thesis
    using C2_coercion_before_validation
        [of env_concurrency_abc Concurrency_field
          "IntCoercionError ''CONCURRENCY'' ''Concurrency'' TInt" no_regexp "VInt 0" "[]"]
      C2_coercion_before_validation
        [of env_concurrency_0 Concurrency_field _ no_regexp "VInt 0" "[]" "VInt 0"
          "BelowMinimum ''CONCURRENCY'' ''Concurrency'' ''min=1''"]
      p1 v1 p2 v2
    by simp
qed

subsection \<open>Required fields whose variable is not set\<close>

text \<open>
  C3, as claimed: a field without an \<open>optional\<close> clause whose lookup yields no value
  fails with \<open>RequiredValueMissing\<close>. \<open>Concurrency int `env:"CONCURRENCY;min=1"`\<close> with no
  variable set fails with the coercion error instead. And a \<open>string\<close> field whose
  annotation is the key \<open>optional\<close> alone has no clause at all; with no variable of
  that name set it binds, since the code finds the word among the segments.
\<close>

theorem C3_counterexample:
  "envValue_of env_unset Concurrency_field = []
   \<and> \<not> slices_Contains (tl (tagOptions_of Concurrency_field)) ''optional''
   \<and> Load no_regexp env_unset (zero_struct [Concurrency_field]) =
       (Some (IntCoercionError ''CONCURRENCY'' ''Concurrency'' TInt),
        zero_struct [Concurrency_field])
   \<and> envValue_of env_unset optional_key_field = []
   \<and> tl (tagOptions_of optional_key_field) = []
   \<and> Load no_regexp env_unset (zero_struct [optional_key_field]) =
       (None, zero_struct [optional_key_field])"
  by code_simp

text \<open>
  C3, amended: for a field that has no \<open>optional\<close> clause, whose key is not the word
  \<open>optional\<close> either, and whose lookup yields no value, the binding fails.
  \<open>validateConstraints\<close> returns \<open>RequiredValueMissing\<close> with the key and the field's name,
  whatever the other clauses and the regular-expression engine are (none is evaluated);
  this is the error of the binding when the field's kind is string. For an \<open>int\<close> or
  \<open>float64\<close> field the binding fails before, with the coercion error of the empty string,
  and for any other kind with the unsupported-type error.
\<close>

theorem C3_required_value_missing:
  assumes "\<not> slices_Contains (tl (tagOptions_of f)) ''optional''"
    and "envKey_of f \<noteq> ''optional''"
    and "envValue_of env f = []"
  shows "validateConstraints compile env f =
           Some (RequiredValueMissing (envKey_of f) (Name f))
         \<and> Load compile env ((f, cur) # rest) =
           (Some (case Kind (Type f) of
                    KString \<Rightarrow> RequiredValueMissing (envKey_of f) (Name f)
                  | KInt \<Rightarrow> IntCoercionError (envKey_of f) (Name f) (Type f)
                  | KFloat64 \<Rightarrow> FloatCoercionError (envKey_of f) (Name f) (Type f)
                  | KOther \<Rightarrow> UnsupportedType (envKey_of f) (Name f) (Type f)),
            (f, cur) # rest)"
proof -
  have o: "\<not> is_optional f"
    using assms(1,2) by (simp add: is_optional_key_or_clause)
  have v: "validateConstraints compile env f =
      Some (RequiredValueMissing (envKey_of f) (Name f))"
    using o assms(3) by (rule validate_required)
  show ?thesis
  proof (cases "Kind (Type f)")
    case KString
    then show ?thesis
      using v by (simp add: load_field_def parseValueFromEnv_kind)
  next
    case KInt
    then show ?thesis
      using v assms(3) by (simp add: load_field_def parseValueFromEnv_kind Atoi_empty)
  next
    case KFloat64
    then show ?thesis
      using v assms(3) by (simp add: load_field_def parseValueFromEnv_kind ParseFloat_empty)
  next
    case KOther
    then show ?thesis
      using v by (simp add: load_field_def parseValueFromEnv_kind)
  qed
qed

theorem C3_required_value_missing_witness:
  "validateConstraints no_regexp env_unset EncryptionKey_field =
     Some (RequiredValueMissing ''ENCRYPTION_KEY'' ''EncryptionKey'')
   \<and> Load no_regexp env_unset (zero_struct [EncryptionKey_field, Version_field]) =
     (Some (RequiredValueMissing ''ENCRYPTION_KEY'' ''EncryptionKey''),
      zero_struct [EncryptionKey_field, Version_field])
   \<and> Load no_regexp env_unset (zero_struct [Concurrency_field]) =
     (Some (IntCoercionError ''CONCURRENCY'' ''Concurrency'' TInt),
      zero_struct [Concurrency_field])"
proof -
  have a: "\<not> slices_Contains (tl (tagOptions_of EncryptionKey_field)) ''optional''"
    "\<not> slices_Contains (tl (tagOptions_of Concurrency_field)) ''optional''"
    by code_simp+
  have k: "envKey_of EncryptionKey_field = ''ENCRYPTION_KEY''"
    "envKey_of Concurrency_field = ''CONCURRENCY''"
    by code_simp+
  have k': "envKey_of EncryptionKey_field \<noteq> ''optional''"
    "envKey_of Concurrency_field \<noteq> ''optional''"
    by (simp_all add: k)
  have b: "envValue_of env_unset f = []" for f
    by (simp add: envValue_of_def os_Getenv_def env_unset_def)
  have r1: "validateConstraints no_regexp env_unset EncryptionKey_field =
       Some (RequiredValueMissing ''ENCRYPTION_KEY'' ''EncryptionKey'')
     \<and> Load no_regexp env_unset (zero_struct [EncryptionKey_field, Version_field]) =
       (Some (RequiredValueMissing ''ENCRYPTION_KEY'' ''EncryptionKey''),
        zero_struct [EncryptionKey_field, Version_field])"
    using C3_required_value_missing [OF a(1) k'(1) b, of no_regexp "VString []"
        "zero_struct [Version_field]"] k(1)
    by (simp add: zero_struct_def zero_value_def EncryptionKey_field_def)
  have r2: "Load no_regexp env_unset (zero_struct [Concurrency_field]) =
     (Some (IntCoercionError ''CONCURRENCY'' ''Concurrency'' TInt),
      zero_struct [Concurrency_field])"
    using C3_required_value_missing [OF a(2) k'(2) b, of no_regexp "VInt 0" "[]"] k(2)
    by (simp add: zero_struct_def zero_value_def Concurrency_field_def)
  from r1 r2 show ?thesis by simp
qed

subsection \<open>The other clauses of an optional field whose variable is not set\<close>

text \<open>
  C4. The claim: when \<open>optional\<close> is present and the value is absent, validation succeeds
  and no other clause of the field is evaluated. The loop of \<open>validateConstraints\<close> only
  skips the presence test: every clause is still checked against the empty string.
  With no variable set, the documentation's \<open>CONCURRENCY;optional;min=1\<close> fails in its
  \<open>min\<close> clause, and \<open>string\<close> fields fail to bind on their \<open>format=URL\<close> and \<open>oneof\<close>
  clauses.
\<close>

theorem C4_optional_absent_clauses_still_evaluated:
  "is_optional Concurrency_optional_field
   \<and> envValue_of env_unset Concurrency_optional_field = []
   \<and> validateConstraints compile env_unset Concurrency_optional_field =
       Some (MinValueNotNumeric ''CONCURRENCY'' ''Concurrency'')
   \<and> is_optional ApiURL_optional_field
   \<and> Load compile env_unset (zero_struct [ApiURL_optional_field]) =
       (Some (InvalidFormat ''API_URL'' ''ApiURL''), zero_struct [ApiURL_optional_field])
   \<and> is_optional Environment_optional_field
   \<and> Load compile env_unset (zero_struct [Environment_optional_field]) =
       (Some (NotInAllowedSet ''Environment'' []
                ''development,test,staging,production''),
        zero_struct [Environment_optional_field])"
  by code_simp

subsection \<open>Empty annotations\<close>

lemma check_constraint_not_NoEnvVarName:
  "check_constraint compile k n v c \<noteq> Return_err NoEnvVarName_validate"
  by (simp add: check_constraint_def Let_def split: option.splits sum.splits)

lemma validate_loop_not_NoEnvVarName:
  "validate_loop compile opts k n v cs \<noteq> Some NoEnvVarName_validate"
  by (induction cs) (auto simp: check_constraint_not_NoEnvVarName split: outcome.splits)

text \<open>
  C5. The claim: an empty annotation, or one whose key is empty, fails with a
  malformed-annotation error before any lookup. Both functions test
  \<open>len(tagOptions) < 1\<close> for this, but \<open>strings.Split\<close> never returns an empty slice:
  neither function ever returns its \<open>failed to find env var name\<close> error. A \<open>string\<close>
  field with no tag is looked up under the empty name and reported as a missing required
  value; with the annotation \<open>;optional\<close> it binds.
\<close>

theorem C5_annotation_guard_never_fires:
  "parseValueFromEnv env f \<noteq> Inl NoEnvVarName_parse
   \<and> validateConstraints compile env f \<noteq> Some NoEnvVarName_validate
   \<and> Load compile env (zero_struct [untagged_field]) =
       (Some (RequiredValueMissing [] ''Secret''), zero_struct [untagged_field])
   \<and> Load compile env (zero_struct [empty_key_field]) =
       (None, zero_struct [empty_key_field])"
proof -
  have "parseValueFromEnv env f \<noteq> Inl NoEnvVarName_parse"
    by (simp add: parseValueFromEnv_kind split: go_kind.splits option.splits)
  moreover have "validateConstraints compile env f \<noteq> Some NoEnvVarName_validate"
    by (simp add: validateConstraints_loop validate_loop_not_NoEnvVarName)
  moreover have "Load compile env (zero_struct [untagged_field]) =
       (Some (RequiredValueMissing [] ''Secret''), zero_struct [untagged_field])"
    by code_simp
  moreover have "Load compile env (zero_struct [empty_key_field]) =
       (None, zero_struct [empty_key_field])"
    by code_simp
  ultimately show ?thesis by simp
qed

subsection \<open>Formats other than URL\<close>

lemma check_constraint_format_email:
  "check_constraint compile key name v ''format=email'' = Return_nil"
  by code_simp

text \<open>
  C6. The claim: a \<open>format=X\<close> clause with \<open>X\<close> other than \<open>URL\<close> is satisfied and the
  clauses after it are still evaluated. The code returns nil from \<open>validateConstraints\<close>
  at such a clause, so the clauses after it are never reached: with \<open>MODE=zzz\<close>, the
  annotation \<open>MODE;format=email;oneof=a,b\<close> binds \<open>zzz\<close>, while
  \<open>MODE;oneof=a,b;format=email\<close> rejects it.
\<close>

theorem C6_unrecognized_format_ends_validation:
  "check_constraint compile key name v ''format=email'' = Return_nil
   \<and> validate_loop compile opts key name ''zzz'' (''format=email'' # rest) = None
   \<and> Load compile env_mode_zzz (zero_struct [format_then_oneof_field]) =
       (None, [(format_then_oneof_field, VString ''zzz'')])
   \<and> Load compile env_mode_zzz (zero_struct [oneof_then_format_field]) =
       (Some (NotInAllowedSet ''Mode'' ''zzz'' ''a,b''), zero_struct [oneof_then_format_field])"
proof -
  have a: "check_constraint compile key name v ''format=email'' = Return_nil"
    by (rule check_constraint_format_email)
  have b: "validate_loop compile opts key name ''zzz'' (''format=email'' # rest) = None"
    by (simp add: check_constraint_format_email)
  have c: "Load compile env_mode_zzz (zero_struct [format_then_oneof_field]) =
       (None, [(format_then_oneof_field, VString ''zzz'')])"
    by code_simp
  have d: "Load compile env_mode_zzz (zero_struct [oneof_then_format_field]) =
       (Some (NotInAllowedSet ''Mode'' ''zzz'' ''a,b''), zero_struct [oneof_then_format_field])"
    by code_simp
  show ?thesis using a b c d by simp
qed

subsection \<open>The URL format\<close>





subsection \<open>The min clause\<close>

lemma check_constraint_min_5:
  "check_constraint compile key name v ''min=5'' =
     (case strconv_ParseFloat v of
        None \<Rightarrow> Return_err (MinValueNotNumeric key name)
      | Some x \<Rightarrow>
          if f64_less x (Finite False 5) then Return_err (BelowMinimum key name ''min=5'')
          else Next)"
proof -
  have p: "\<not> strings_HasPrefix ''min=5'' ''oneof=''"
    "strings_HasPrefix ''min=5'' ''min=''"
    "strconv_ParseFloat (strings_TrimPrefix ''min=5'' ''min='') = Some (Finite False 5)"
    by code_simp+
  show ?thesis
    by (simp add: check_constraint_def p)
qed

lemma validateConstraints_Type:
  "validateConstraints compile env (f\<lparr>Type := t\<rparr>) = validateConstraints compile env f"
  by (simp add: validateConstraints_def Let_def)

text \<open>
  C8. The clause \<open>min=5\<close> parses the raw value with \<open>strconv.ParseFloat\<close> and compares the
  double with 5: \<open>5\<close>, \<open>5.0\<close> and \<open>10\<close> pass; \<open>4.999\<close> fails as below the minimum; a value
  that does not parse fails in the clause as well (the code has a message of its own
  for it, raised by the constraint, not by the conversion to the field's type). The
  verdict of \<open>validateConstraints\<close> does not depend on the field's declared type.
\<close>

theorem C8_min_clause:
  "check_constraint compile key name ''5'' ''min=5'' = Next
   \<and> check_constraint compile key name ''5.0'' ''min=5'' = Next
   \<and> check_constraint compile key name ''10'' ''min=5'' = Next
   \<and> check_constraint compile key name ''4.999'' ''min=5'' =
       Return_err (BelowMinimum key name ''min=5'')
   \<and> (strconv_ParseFloat v = None \<longrightarrow>
         check_constraint compile key name v ''min=5'' =
           Return_err (MinValueNotNumeric key name))
   \<and> check_constraint compile key name v ''min=5'' =
       (case strconv_ParseFloat v of
          None \<Rightarrow> Return_err (MinValueNotNumeric key name)
        | Some x \<Rightarrow>
            if f64_less x (Finite False 5) then Return_err (BelowMinimum key name ''min=5'')
            else Next)
   \<and> validateConstraints compile env (f\<lparr>Type := t\<rparr>) = validateConstraints compile env f
   \<and> validateConstraints compile (env_limit ''5.0'') (Limit_field\<lparr>Type := t\<rparr>) = None
   \<and> validateConstraints compile (env_limit ''4.999'') (Limit_field\<lparr>Type := t\<rparr>) =
       Some (BelowMinimum ''LIMIT'' ''Limit'' ''min=5'')"
proof -
  have v: "strconv_ParseFloat ''5'' = Some (Finite False 5)"
    "strconv_ParseFloat ''5.0'' = Some (Finite False 5)"
    "strconv_ParseFloat ''10'' = Some (Finite False 10)"
    "strconv_ParseFloat ''4.999'' = Some (Finite False (5628373634306277 / 1125899906842624))"
    by code_simp+
  have e: "validateConstraints compile (env_limit ''5.0'') Limit_field = None"
    "validateConstraints compile (env_limit ''4.999'') Limit_field =
       Some (BelowMinimum ''LIMIT'' ''Limit'' ''min=5'')"
    by code_simp+
  show ?thesis
    by (simp add: check_constraint_min_5 v e finite_value_def validateConstraints_Type)
qed

theorem C8_min_clause_witness:
  "strconv_ParseFloat ''five'' = None
   \<and> check_constraint no_regexp ''LIMIT'' ''Limit'' ''five'' ''min=5'' =
        Return_err (MinValueNotNumeric ''LIMIT'' ''Limit'')
   \<and> check_constraint no_regexp ''LIMIT'' ''Limit'' ''4.999'' ''min=5'' =
        Return_err (BelowMinimum ''LIMIT'' ''Limit'' ''min=5'')"
proof -
  have n: "strconv_ParseFloat ''five'' = None" by code_simp
  show ?thesis
    using C8_min_clause [of no_regexp "''LIMIT''" "''Limit''" "''five''"] n
    by simp
qed

subsection \<open>What a failed binding leaves in the struct\<close>






subsection \<open>The key as a clause\<close>

text \<open>
  C10, as claimed: for every field whose key begins with one of the recognised prefixes,
  the key is evaluated as a constraint of that kind against the looked-up value. A
  field whose annotation is \<open>min=5\<close> alone, with no variable set: as a \<open>min\<close> clause
  against the empty value the key would fail to parse the value, but validation
  returns the required-value error of the presence test and never evaluates the key;
  with the key \<open>oneof=\<close>, which the empty value would satisfy, it is the same.
\<close>

theorem C10_counterexample:
  "strings_HasPrefix (envKey_of (key_only_field ''min=5'')) ''min=''
   \<and> envValue_of env_unset (key_only_field ''min=5'') = []
   \<and> check_constraint no_regexp ''min=5'' ''Field'' [] ''min=5'' =
       Return_err (MinValueNotNumeric ''min=5'' ''Field'')
   \<and> validateConstraints no_regexp env_unset (key_only_field ''min=5'') =
       Some (RequiredValueMissing ''min=5'' ''Field'')
   \<and> Load no_regexp env_unset (zero_struct [key_only_field ''min=5'']) =
       (Some (RequiredValueMissing ''min=5'' ''Field''), zero_struct [key_only_field ''min=5''])
   \<and> strings_HasPrefix (envKey_of (key_only_field ''oneof='')) ''oneof=''
   \<and> check_constraint no_regexp ''oneof='' ''Field'' [] ''oneof='' = Next
   \<and> validateConstraints no_regexp env_unset (key_only_field ''oneof='') =
       Some (RequiredValueMissing ''oneof='' ''Field'')"
  by code_simp

text \<open>
  C10, amended: the loop of \<open>validateConstraints\<close> ranges over all of \<open>tagOptions\<close>, whose
  first element is the key, so the key is scanned as the first clause. As for every
  clause, the presence test comes first: when the looked-up value is empty and no
  segment is \<open>optional\<close>, validation returns the required-value error and the key is
  not evaluated. Otherwise the key goes through the same \<open>switch\<close> as a clause, against
  the value looked up under it: a key that begins with a recognised prefix is checked
  as a constraint of that kind, its error is the error of the validation, and only
  when it lets the loop go on are the clauses after it checked.
\<close>

theorem C10_key_scanned_as_constraint:
  "validateConstraints compile env f =
     validate_loop compile (tagOptions_of f) (envKey_of f) (Name f) (envValue_of env f)
       (envKey_of f # tl (tagOptions_of f))
   \<and> validateConstraints compile env f =
     (if envValue_of env f = [] \<and> \<not> is_optional f
      then Some (RequiredValueMissing (envKey_of f) (Name f))
      else
        (case check_constraint compile (envKey_of f) (Name f) (envValue_of env f) (envKey_of f) of
           Return_err err \<Rightarrow> Some err
         | Return_nil \<Rightarrow> None
         | Next \<Rightarrow>
             validate_loop compile (tagOptions_of f) (envKey_of f) (Name f)
               (envValue_of env f) (tl (tagOptions_of f))))"
proof -
  obtain c cs where t: "tagOptions_of f = c # cs"
    using tagOptions_of_not_Nil [of f] by (cases "tagOptions_of f") auto
  then have k: "envKey_of f = c"
    by (simp add: envKey_of_def)
  show ?thesis
    unfolding validateConstraints_loop k t is_optional_def
    by (auto simp: t split: outcome.splits)
qed

theorem C10_key_scanned_as_constraint_witness:
  "validateConstraints no_regexp env_unset (key_clause_field ''oneof=a,b'') =
     Some (NotInAllowedSet ''Field'' [] ''a,b'')
   \<and> validateConstraints no_regexp env_unset (key_clause_field ''min=5'') =
     Some (MinValueNotNumeric ''min=5'' ''Field'')
   \<and> validateConstraints no_regexp env_unset (key_clause_field ''max=5'') =
     Some (MaxValueNotNumeric ''max=5'' ''Field'')
   \<and> validateConstraints no_regexp env_unset (key_clause_field ''regex=[0-9]+'') =
     Some (PatternMismatch ''regex=[0-9]+'' ''Field'')
   \<and> validateConstraints no_regexp env_unset (key_clause_field ''format=URL'') =
     Some (InvalidFormat ''format=URL'' ''Field'')
   \<and> validateConstraints no_regexp env_unset (key_clause_field ''PORT'') = None
   \<and> Load no_regexp env_unset (zero_struct [key_clause_field ''min=5'']) =
     (Some (MinValueNotNumeric ''min=5'' ''Field''), zero_struct [key_clause_field ''min=5''])"
proof -
  have o: "is_optional (key_clause_field ''oneof=a,b'')" "is_optional (key_clause_field ''min=5'')"
    "is_optional (key_clause_field ''max=5'')" "is_optional (key_clause_field ''regex=[0-9]+'')"
    "is_optional (key_clause_field ''format=URL'')" "is_optional (key_clause_field ''PORT'')"
    by code_simp+
  have k: "envKey_of (key_clause_field ''oneof=a,b'') = ''oneof=a,b''"
    "envKey_of (key_clause_field ''min=5'') = ''min=5''"
    "envKey_of (key_clause_field ''max=5'') = ''max=5''"
    "envKey_of (key_clause_field ''regex=[0-9]+'') = ''regex=[0-9]+''"
    "envKey_of (key_clause_field ''format=URL'') = ''format=URL''"
    "envKey_of (key_clause_field ''PORT'') = ''PORT''"
    by code_simp+
  have t: "tagOptions_of (key_clause_field ''PORT'') = [''PORT'', ''optional'']"
    by code_simp
  have v: "envValue_of env_unset f = []" for f
    by (simp add: envValue_of_def os_Getenv_def env_unset_def)
  have c: "check_constraint no_regexp ''oneof=a,b'' ''Field'' [] ''oneof=a,b'' =
      Return_err (NotInAllowedSet ''Field'' [] ''a,b'')"
    "check_constraint no_regexp ''min=5'' ''Field'' [] ''min=5'' =
      Return_err (MinValueNotNumeric ''min=5'' ''Field'')"
    "check_constraint no_regexp ''max=5'' ''Field'' [] ''max=5'' =
      Return_err (MaxValueNotNumeric ''max=5'' ''Field'')"
    "check_constraint no_regexp ''regex=[0-9]+'' ''Field'' [] ''regex=[0-9]+'' =
      Return_err (PatternMismatch ''regex=[0-9]+'' ''Field'')"
    "check_constraint no_regexp ''format=URL'' ''Field'' [] ''format=URL'' =
      Return_err (InvalidFormat ''format=URL'' ''Field'')"
    "check_constraint no_regexp ''PORT'' ''Field'' [] ''PORT'' = Next"
    "check_constraint no_regexp ''PORT'' ''Field'' [] ''optional'' = Next"
    by code_simp+
  have n: "Name (key_clause_field x) = ''Field''" for x
    by (simp add: key_clause_field_def)
  have L: "Load no_regexp env_unset (zero_struct [key_clause_field ''min=5'']) =
     (Some (MinValueNotNumeric ''min=5'' ''Field''), zero_struct [key_clause_field ''min=5''])"
    by code_simp
  have r1: "validateConstraints no_regexp env_unset (key_clause_field ''oneof=a,b'') =
      Some (NotInAllowedSet ''Field'' [] ''a,b'')"
    using C10_key_scanned_as_constraint
        [where compile = no_regexp and env = env_unset and f = "key_clause_field ''oneof=a,b''", THEN conjunct2]
    by (simp add: o k v c n)
  have r2: "validateConstraints no_regexp env_unset (key_clause_field ''min=5'') =
      Some (MinValueNotNumeric ''min=5'' ''Field'')"
    using C10_key_scanned_as_constraint
        [where compile = no_regexp and env = env_unset and f = "key_clause_field ''min=5''", THEN conjunct2]
    by (simp add: o k v c n)
  have r3: "validateConstraints no_regexp env_unset (key_clause_field ''max=5'') =
      Some (MaxValueNotNumeric ''max=5'' ''Field'')"
    using C10_key_scanned_as_constraint
        [where compile = no_regexp and env = env_unset and f = "key_clause_field ''max=5''", THEN conjunct2]
    by (simp add: o k v c n)
  have r4: "validateConstraints no_regexp env_unset (key_clause_field ''regex=[0-9]+'') =
      Some (PatternMismatch ''regex=[0-9]+'' ''Field'')"
    using C10_key_scanned_as_constraint
        [where compile = no_regexp and env = env_unset and f = "key_clause_field ''regex=[0-9]+''", THEN conjunct2]
    by (simp add: o k v c n)
  have r5: "validateConstraints no_regexp env_unset (key_clause_field ''format=URL'') =
      Some (InvalidFormat ''format=URL'' ''Field'')"
    using C10_key_scanned_as_constraint
        [where compile = no_regexp and env = env_unset and f = "key_clause_field ''format=URL''", THEN conjunct2]
    by (simp add: o k v c n)
  have r6: "validateConstraints no_regexp env_unset (key_clause_field ''PORT'') = None"
    using C10_key_scanned_as_constraint
        [where compile = no_regexp and env = env_unset and f = "key_clause_field ''PORT''", THEN conjunct2]
    by (simp add: o k v c n t slices_Contains_def)
  from r1 r2 r3 r4 r5 r6 L show ?thesis
    by simp
qed

end
